theory Spec2Isabelle
  imports Complex_Main "HOL-Library.AList"
begin

section \<open>Portfolio analyzer: lot accounting, portfolio aggregate, allocation, optimizer\<close>

text \<open>
  A shallow embedding of \<^verbatim>\<open>src/core/stock.py\<close>, \<^verbatim>\<open>src/core/portfolio.py\<close> and of the
  Max-Sharpe search of \<^verbatim>\<open>examples/advanced_optimization.py\<close>.

  Conventions.
  \<^item> Python floats are idealised as \<^typ>\<open>real\<close>: rounding, infinities and NaN are not
    modelled.
  \<^item> Timestamps (\<^verbatim>\<open>datetime\<close>) are natural numbers; \<^verbatim>\<open>datetime.now()\<close> is the
    parameter \<open>now\<close> of every operation that reads the clock.
  \<^item> A Python \<^verbatim>\<open>dict\<close> is an association list in insertion order: assignment to a key is
    \<^const>\<open>AList.update\<close> (in place for a key that exists, at the end for a new one),
    \<^verbatim>\<open>del\<close> is \<^const>\<open>AList.delete\<close>, lookup is \<^const>\<open>map_of\<close>.
  \<^item> An exception is a value: \<open>Raise e s\<close> carries the error and the state of the
    mutated object at the moment the exception leaves the call, so that what a failed call
    has already written stays visible.
\<close>

subsection \<open>Errors and results\<close>

text \<open>
  Both \<^verbatim>\<open>ValueError\<close>s of the source are kept apart by their message: selling more
  than is held (stock.py) and selling a symbol that is not in the portfolio (portfolio.py).
  \<^verbatim>\<open>ZeroDivisionError\<close> is what Python raises on a float or int division by zero.
\<close>

datatype error =
    ValueError_sell_more_than_held
  | ValueError_not_found string
  | ZeroDivisionError

datatype 'a result = Ok 'a | Raise error 'a

fun is_ok :: "'a result \<Rightarrow> bool" where
  "is_ok (Ok _) = True"
| "is_ok (Raise _ _) = False"

fun state_of :: "'a result \<Rightarrow> 'a" where
  "state_of (Ok s) = s"
| "state_of (Raise _ s) = s"

subsection \<open>Symbols\<close>

text \<open>\<^verbatim>\<open>str.upper()\<close> on ticker symbols, which are ASCII: a to z go to A to Z.\<close>

definition char_upper :: "char \<Rightarrow> char" where
  "char_upper c =
     (let n = (of_char c :: nat) in if 97 \<le> n \<and> n \<le> 122 then char_of (n - 32) else c)"

definition upper :: "string \<Rightarrow> string" where
  "upper s = map char_upper s"

subsection \<open>Transactions and holdings (stock.py)\<close>

record transaction =
  t_date :: nat
  t_shares :: real
  t_price :: real
  transaction_type :: string
  t_fees :: real

definition total_cost :: "transaction \<Rightarrow> real" where
  "total_cost t = (t_shares t * t_price t) + t_fees t"

record stock =
  symbol :: string
  shares :: real
  purchase_price :: real
  stock_name :: "string option"
  transactions :: "transaction list"

text \<open>
  \<^verbatim>\<open>Stock.add_transaction\<close>. The record is appended first; then a buy recomputes the
  average price, a sell subtracts the shares and only afterwards tests the sign; any other
  transaction type changes nothing more.
\<close>

definition add_transaction ::
  "nat \<Rightarrow> stock \<Rightarrow> real \<Rightarrow> real \<Rightarrow> string \<Rightarrow> nat option \<Rightarrow> real \<Rightarrow> stock result" where
  "add_transaction now st sh pr ttype date fs =
     (let d = (case date of None \<Rightarrow> now | Some d' \<Rightarrow> d');
          tr = \<lparr>t_date = d, t_shares = sh, t_price = pr, transaction_type = ttype, t_fees = fs\<rparr>;
          st1 = st\<lparr>transactions := transactions st @ [tr]\<rparr>
      in if ttype = ''buy'' then
           (let tc = (shares st1 * purchase_price st1) + total_cost tr;
                st2 = st1\<lparr>shares := shares st1 + sh\<rparr>
            in Ok (st2\<lparr>purchase_price := (if shares st2 > 0 then tc / shares st2 else 0)\<rparr>))
         else if ttype = ''sell'' then
           (let st2 = st1\<lparr>shares := shares st1 - sh\<rparr>
            in if shares st2 < 0 then Raise ValueError_sell_more_than_held st2 else Ok st2)
         else Ok st1)"

text \<open>
  \<^verbatim>\<open>Stock.__init__\<close>: the fields are set from the arguments, and when both are positive
  the same shares are then also booked as an initial buy through
  \<^const>\<open>add_transaction\<close>.
\<close>

definition Stock_init ::
  "nat \<Rightarrow> string \<Rightarrow> real \<Rightarrow> real \<Rightarrow> string option \<Rightarrow> stock result" where
  "Stock_init now symb sh pp nm =
     (let st = \<lparr>symbol = upper symb, shares = sh, purchase_price = pp, stock_name = nm,
                transactions = []\<rparr>
      in if sh > 0 \<and> pp > 0 then add_transaction now st sh pp ''buy'' (Some now) 0
         else Ok st)"

subsection \<open>The market-data provider\<close>

text \<open>
  A holding reads its current price and its company metadata from an external provider
  (yfinance behind a time-to-live cache). The provider is a parameter: one price and one
  optional sector per symbol, constant during a call. A provider failure is caught in
  \<^verbatim>\<open>get_current_price\<close> and \<^verbatim>\<open>get_info\<close> and shows here as price \<open>0\<close> and as no
  sector.
\<close>

record provider =
  get_current_price :: "string \<Rightarrow> real"
  get_info_sector :: "string \<Rightarrow> string option"

definition degraded :: provider where
  "degraded = \<lparr>get_current_price = (\<lambda>_. 0), get_info_sector = (\<lambda>_. None)\<rparr>"

definition current_value :: "provider \<Rightarrow> stock \<Rightarrow> real" where
  "current_value pv st = shares st * get_current_price pv (symbol st)"

subsection \<open>The portfolio (portfolio.py)\<close>

record portfolio =
  name :: string
  stocks :: "(string \<times> stock) list"
  cash :: real
  creation_date :: nat
  metadata :: "(string \<times> string) list"

definition Portfolio_init :: "nat \<Rightarrow> string \<Rightarrow> real \<Rightarrow> portfolio" where
  "Portfolio_init now nm c =
     \<lparr>name = nm, stocks = [], cash = c, creation_date = now, metadata = []\<rparr>"

text \<open>The last two statements of \<^verbatim>\<open>add_stock\<close>: the cost leaves the cash only if the cash covers it.\<close>

definition deduct_cost :: "portfolio \<Rightarrow> real \<Rightarrow> real \<Rightarrow> portfolio" where
  "deduct_cost p sh pp =
     (let cost = sh * pp in if cash p \<ge> cost then p\<lparr>cash := cash p - cost\<rparr> else p)"

text \<open>
  \<^verbatim>\<open>Portfolio.add_stock\<close>: a buy on the holding when the upper-cased symbol is a key, a new
  \<^verbatim>\<open>Stock\<close> otherwise; then the conditional deduction.
\<close>

definition add_stock ::
  "nat \<Rightarrow> portfolio \<Rightarrow> string \<Rightarrow> real \<Rightarrow> real \<Rightarrow> string option \<Rightarrow> portfolio result" where
  "add_stock now p symb sh pp nm =
     (let sy = upper symb in
      case map_of (stocks p) sy of
        Some st \<Rightarrow>
          (case add_transaction now st sh pp ''buy'' None 0 of
             Raise e st' \<Rightarrow> Raise e (p\<lparr>stocks := AList.update sy st' (stocks p)\<rparr>)
           | Ok st' \<Rightarrow> Ok (deduct_cost (p\<lparr>stocks := AList.update sy st' (stocks p)\<rparr>) sh pp))
      | None \<Rightarrow>
          (case Stock_init now sy sh pp nm of
             Raise e _ \<Rightarrow> Raise e p
           | Ok st' \<Rightarrow> Ok (deduct_cost (p\<lparr>stocks := AList.update sy st' (stocks p)\<rparr>) sh pp)))"

definition remove_stock :: "portfolio \<Rightarrow> string \<Rightarrow> portfolio" where
  "remove_stock p symb =
     (let sy = upper symb in
      if sy \<in> fst ` set (stocks p) then p\<lparr>stocks := AList.delete sy (stocks p)\<rparr> else p)"

text \<open>
  \<^verbatim>\<open>Portfolio.sell_stock\<close>. An exception of the holding's sell leaves the call at once:
  the holding keeps what \<^const>\<open>add_transaction\<close> wrote, the cash is not touched.
\<close>

definition sell_stock ::
  "nat \<Rightarrow> portfolio \<Rightarrow> string \<Rightarrow> real \<Rightarrow> real \<Rightarrow> portfolio result" where
  "sell_stock now p symb sh pr =
     (let sy = upper symb in
      case map_of (stocks p) sy of
        None \<Rightarrow> Raise (ValueError_not_found sy) p
      | Some st \<Rightarrow>
          (case add_transaction now st sh pr ''sell'' None 0 of
             Raise e st' \<Rightarrow> Raise e (p\<lparr>stocks := AList.update sy st' (stocks p)\<rparr>)
           | Ok st' \<Rightarrow>
               (let p1 = p\<lparr>stocks := AList.update sy st' (stocks p)\<rparr>;
                    p2 = p1\<lparr>cash := cash p1 + sh * pr\<rparr>
                in Ok (if shares st' = 0 then remove_stock p2 sy else p2))))"

definition total_value :: "provider \<Rightarrow> portfolio \<Rightarrow> real" where
  "total_value pv p = sum_list (map (\<lambda>(sy, st). current_value pv st) (stocks p)) + cash p"

text \<open>\<^verbatim>\<open>Portfolio.get_allocation\<close>: empty when the total is zero.\<close>

definition get_allocation :: "provider \<Rightarrow> portfolio \<Rightarrow> (string \<times> real) list" where
  "get_allocation pv p =
     (let total = total_value pv p in
      if total = 0 then []
      else
        (let allocation =
               fold (\<lambda>(sy, st) al. AList.update sy ((current_value pv st / total) * 100) al)
                 (stocks p) []
         in if cash p > 0 then AList.update ''CASH'' ((cash p / total) * 100) allocation
            else allocation))"

text \<open>
  \<^verbatim>\<open>Portfolio.get_sector_allocation\<close>: the values are grouped by sector (\<open>Unknown\<close>
  without metadata) and every group is divided by the total. Python raises
  \<^verbatim>\<open>ZeroDivisionError\<close> at the first division when the total is zero; there is a division
  exactly when there is a group.
\<close>

definition sector_of :: "provider \<Rightarrow> stock \<Rightarrow> string" where
  "sector_of pv st = (case get_info_sector pv (symbol st) of None \<Rightarrow> ''Unknown'' | Some s \<Rightarrow> s)"

definition sector_values :: "provider \<Rightarrow> portfolio \<Rightarrow> (string \<times> real) list" where
  "sector_values pv p =
     fold (\<lambda>(sy, st) sectors.
             (let sector = sector_of pv st; v = current_value pv st in
              case map_of sectors sector of
                Some old \<Rightarrow> AList.update sector (old + v) sectors
              | None \<Rightarrow> AList.update sector v sectors))
       (stocks p) []"

definition get_sector_allocation :: "provider \<Rightarrow> portfolio \<Rightarrow> error + (string \<times> real) list" where
  "get_sector_allocation pv p =
     (let sectors = sector_values pv p; total = total_value pv p in
      if sectors \<noteq> [] \<and> total = 0 then Inl ZeroDivisionError
      else Inr (map (\<lambda>(k, v). (k, (v / total) * 100)) sectors))"

subsection \<open>Snapshots: to\_dict, save and load\<close>

record snapshot =
  snap_name :: string
  snap_cash :: real
  snap_creation_date :: nat
  snap_stocks :: "(string \<times> real \<times> real) list"
  snap_metadata :: "(string \<times> string) list"

definition to_dict :: "portfolio \<Rightarrow> snapshot" where
  "to_dict p =
     \<lparr>snap_name = name p, snap_cash = cash p, snap_creation_date = creation_date p,
      snap_stocks = map (\<lambda>(sy, st). (sy, shares st, purchase_price st)) (stocks p),
      snap_metadata = metadata p\<rparr>"

text \<open>\<^verbatim>\<open>save\<close> writes the JSON of \<^const>\<open>to_dict\<close>; the file is its content.\<close>

definition save :: "portfolio \<Rightarrow> snapshot" where
  "save p = to_dict p"

text \<open>The loop of \<^verbatim>\<open>load\<close>: one \<^const>\<open>add_stock\<close> per saved holding.\<close>

fun load_stocks :: "nat \<Rightarrow> (string \<times> real \<times> real) list \<Rightarrow> portfolio \<Rightarrow> portfolio result" where
  "load_stocks now [] p = Ok p"
| "load_stocks now ((sy, sh, pp) # rest) p =
     (case add_stock now p sy sh pp None of
        Raise e p' \<Rightarrow> Raise e p'
      | Ok p' \<Rightarrow> load_stocks now rest p')"

definition load :: "nat \<Rightarrow> snapshot \<Rightarrow> portfolio result" where
  "load now d =
     (let p0 = Portfolio_init now (snap_name d) (snap_cash d);
          p1 = p0\<lparr>creation_date := snap_creation_date d, metadata := snap_metadata d\<rparr>
      in load_stocks now (snap_stocks d) p1)"

subsection \<open>States used in the examples\<close>

text \<open>A holding of 10 shares at an average cost of 150, and a portfolio that owns it.\<close>

definition holding_10_at_150 :: stock where
  "holding_10_at_150 =
     \<lparr>symbol = ''AAPL'', shares = 10, purchase_price = 150, stock_name = None, transactions = []\<rparr>"

definition portfolio_one_holding :: portfolio where
  "portfolio_one_holding =
     \<lparr>name = ''Test Portfolio'', stocks = [(''AAPL'', holding_10_at_150)], cash = 0,
      creation_date = 0, metadata = []\<rparr>"

text \<open>
  The portfolio of \<^verbatim>\<open>test_save_and_load\<close>: created with 5000 in cash, then
  \<^verbatim>\<open>add_stock("AAPL", 10, 150)\<close> and \<^verbatim>\<open>add_stock("GOOGL", 5, 140)\<close>.
\<close>

definition test_portfolio :: portfolio where
  "test_portfolio =
     state_of (add_stock 2 (state_of (add_stock 1 (Portfolio_init 0 ''Test Portfolio'' 5000)
        ''AAPL'' 10 150 None)) ''GOOGL'' 5 140 None)"

text \<open>A provider that quotes the same price for every symbol and has no metadata.\<close>

definition flat_prices :: "real \<Rightarrow> provider" where
  "flat_prices x = \<lparr>get_current_price = (\<lambda>_. x), get_info_sector = (\<lambda>_. None)\<rparr>"

text \<open>
  Three portfolios built with the operations: one created with a negative cash balance, one
  that holds a stock whose ticker is \<open>CASH\<close>, and the portfolio of \<^verbatim>\<open>test_allocation\<close>.
\<close>

definition overdrawn_portfolio :: portfolio where
  "overdrawn_portfolio =
     state_of (add_stock 1 (Portfolio_init 0 ''Overdrawn'' (- 50)) ''AAPL'' 1 150 None)"

definition cash_ticker_portfolio :: portfolio where
  "cash_ticker_portfolio =
     state_of (add_stock 1 (Portfolio_init 0 ''Ticker'' 0) ''cash'' 1 50 None)"

definition allocation_test_portfolio :: portfolio where
  "allocation_test_portfolio =
     state_of (add_stock 2 (state_of (add_stock 1 (Portfolio_init 0 ''Test Portfolio'' 1000)
        ''AAPL'' 10 150 None)) ''GOOGL'' 5 140 None)"

subsection \<open>The Max-Sharpe search (examples/advanced\_optimization.py)\<close>

text \<open>
  The optimizer holds the table of daily returns, one column per asset, and the annualized
  covariance matrix that \<^verbatim>\<open>prepare_data\<close> derives from it with pandas (sample covariance,
  times 252).
\<close>

record optimizer =
  columns :: "string list"
  returns_data :: "real list list"
  cov_matrix :: "real list list"

definition mean :: "real list \<Rightarrow> real" where
  "mean xs = sum_list xs / real (length xs)"

definition cov :: "real list \<Rightarrow> real list \<Rightarrow> real" where
  "cov xs ys =
     sum_list (map2 (\<lambda>x y. (x - mean xs) * (y - mean ys)) xs ys) / (real (length xs) - 1)"

definition annualized_cov :: "real list list \<Rightarrow> real list list" where
  "annualized_cov cols = map (\<lambda>c1. map (\<lambda>c2. cov c1 c2 * 252) cols) cols"

definition dot :: "real list \<Rightarrow> real list \<Rightarrow> real" where
  "dot xs ys = sum_list (map2 (*) xs ys)"

definition mat_vec :: "real list list \<Rightarrow> real list \<Rightarrow> real list" where
  "mat_vec m v = map (\<lambda>row. dot row v) m"

definition calculate_portfolio_performance :: "optimizer \<Rightarrow> real list \<Rightarrow> real \<times> real" where
  "calculate_portfolio_performance opt weights =
     (let returns = sum_list (map2 (*) (map mean (returns_data opt)) weights) * 252;
          std = sqrt (dot weights (mat_vec (cov_matrix opt) weights))
      in (returns, std))"

text \<open>
  numpy's global generator is a state \<open>'g\<close> with the two operations the search uses:
  \<^verbatim>\<open>np.random.random(n)\<close> returns \<open>n\<close> numbers of \<open>[0, 1)\<close> and the next state,
  \<^verbatim>\<open>np.random.seed(k)\<close> replaces the state by the one that belongs to \<open>k\<close>.
\<close>

record 'g rng =
  rng_random :: "'g \<Rightarrow> nat \<Rightarrow> real list \<times> 'g"
  rng_seed :: "nat \<Rightarrow> 'g"

text \<open>\<^verbatim>\<open>weights /= np.sum(weights)\<close>\<close>

definition normalize :: "real list \<Rightarrow> real list" where
  "normalize u = map (\<lambda>x. x / sum_list u) u"

text \<open>
  The loop of \<^verbatim>\<open>optimize_sharpe_ratio\<close>, from iteration \<open>i\<close> for \<open>k\<close> more iterations:
  each one draws, normalizes, measures, and stores return, deviation, Sharpe ratio and its
  own index in column \<open>i\<close> of \<^verbatim>\<open>results\<close>. The weights themselves are not stored.
\<close>

fun simulate ::
  "'g rng \<Rightarrow> optimizer \<Rightarrow> real \<Rightarrow> nat \<Rightarrow> nat \<Rightarrow> nat \<Rightarrow> 'g \<Rightarrow> (real \<times> real \<times> real \<times> real) list \<times> 'g" where
  "simulate r opt rf n i 0 g = ([], g)"
| "simulate r opt rf n i (Suc k) g =
     (let (u, g1) = rng_random r g n;
          weights = normalize u;
          (portfolio_return, portfolio_std) = calculate_portfolio_performance opt weights;
          sharpe = (portfolio_return - rf) / portfolio_std;
          (rest, g2) = simulate r opt rf n (Suc i) k g1
      in ((portfolio_return, portfolio_std, sharpe, real i) # rest, g2))"

text \<open>\<^verbatim>\<open>np.argmax\<close>: the index of the first occurrence of the maximum.\<close>

fun argmax_aux :: "real list \<Rightarrow> nat \<Rightarrow> nat \<Rightarrow> real \<Rightarrow> nat" where
  "argmax_aux [] j best bv = best"
| "argmax_aux (y # ys) j best bv =
     (if bv < y then argmax_aux ys (Suc j) j y else argmax_aux ys (Suc j) best bv)"

definition argmax :: "real list \<Rightarrow> nat" where
  "argmax xs = (case xs of [] \<Rightarrow> 0 | x # ys \<Rightarrow> argmax_aux ys 1 0 x)"

text \<open>
  \<^verbatim>\<open>optimize_sharpe_ratio\<close>: after the loop the index of the best Sharpe ratio is read back
  from row 3, the generator is seeded with that index, and one more vector is drawn,
  normalized and returned under the column names. The second component is the generator
  the call leaves behind.
\<close>

definition optimize_sharpe_ratio ::
  "'g rng \<Rightarrow> optimizer \<Rightarrow> real \<Rightarrow> 'g \<Rightarrow> (string \<times> real) list \<times> 'g" where
  "optimize_sharpe_ratio r opt risk_free_rate g =
     (let num_assets = length (columns opt);
          num_portfolios = 10000;
          (results, g1) = simulate r opt risk_free_rate num_assets 0 num_portfolios g;
          max_sharpe_idx = argmax (map (\<lambda>(ret, sd, sharpe, i). sharpe) results);
          g2 = rng_seed r (nat \<lfloor>(\<lambda>(ret, sd, sharpe, i). i) (results ! max_sharpe_idx)\<rfloor>);
          (u, g3) = rng_random r g2 num_assets;
          optimal_weights = normalize u
      in (zip (columns opt) optimal_weights, g3))"

text \<open>
  What the specification asks for, in its words: the weight vectors that the 10000
  iterations draw, the Sharpe ratio of a vector, and the drawn vector with the maximum Sharpe
  ratio.
\<close>

fun drawn_weights :: "'g rng \<Rightarrow> nat \<Rightarrow> nat \<Rightarrow> 'g \<Rightarrow> real list list" where
  "drawn_weights r n 0 g = []"
| "drawn_weights r n (Suc k) g =
     (let (u, g1) = rng_random r g n in normalize u # drawn_weights r n k g1)"

definition sharpe_of :: "optimizer \<Rightarrow> real \<Rightarrow> real list \<Rightarrow> real" where
  "sharpe_of opt rf w =
     (let (ret, sd) = calculate_portfolio_performance opt w in (ret - rf) / sd)"

definition best_drawn :: "'g rng \<Rightarrow> optimizer \<Rightarrow> real \<Rightarrow> 'g \<Rightarrow> real list" where
  "best_drawn r opt rf g =
     (let ws = drawn_weights r (length (columns opt)) 10000 g
      in ws ! argmax (map (sharpe_of opt rf) ws))"

text \<open>
  An optimizer over two assets with three days of returns; its covariance matrix is the one
  \<^verbatim>\<open>prepare_data\<close> computes. And a generator: a stream of numbers \<open>1/2, 1/3, 1/4, \<dots>\<close>
  read from a position; seeding with \<open>k\<close> moves to position \<open>101 + k\<close>.
\<close>

definition two_assets :: optimizer where
  "two_assets =
     \<lparr>columns = [''A'', ''B''],
      returns_data = [[4 / 100, - 1 / 100, 0], [3 / 100, - 2 / 100, - 1 / 100]],
      cov_matrix = annualized_cov [[4 / 100, - 1 / 100, 0], [3 / 100, - 2 / 100, - 1 / 100]]\<rparr>"

definition stream_rng :: "nat rng" where
  "stream_rng =
     \<lparr>rng_random = (\<lambda>g n. (map (\<lambda>j. 1 / real (g + j + 2)) [0..<n], g + n)),
      rng_seed = (\<lambda>k. 101 + k)\<rparr>"


text \<open>
  The first weight that an iteration draws at position \<open>g\<close> of the stream, and the column
  of \<^verbatim>\<open>results\<close> that iteration \<open>i\<close> writes there for the two assets.
\<close>

definition stream_weight :: "nat \<Rightarrow> real" where
  "stream_weight g = (real g + 3) / (2 * real g + 5)"

definition stream_row :: "real \<Rightarrow> nat \<Rightarrow> nat \<Rightarrow> real \<times> real \<times> real \<times> real" where
  "stream_row rf g i =
     (252 / 100 * stream_weight g, 42 / 100,
      (252 / 100 * stream_weight g - rf) / (42 / 100), real i)"

section \<open>Properties\<close>

subsection \<open>Symbols and the two paths of a transaction\<close>

lemma char_upper_idem: "char_upper (char_upper c) = char_upper c"
proof (cases "97 \<le> (of_char c :: nat) \<and> (of_char c :: nat) \<le> 122")
  case True
  define n where "n = (of_char c :: nat)"
  have n: "97 \<le> n" "n \<le> 122" using True by (simp_all add: n_def)
  have "n - 32 < 256" using n by arith
  then have m: "(n - 32) mod 256 = n - 32" by (rule mod_less)
  have out: "\<not> 97 \<le> n - 32" using n by arith
  have up: "char_upper c = char_of (n - 32)"
    using True by (simp add: char_upper_def Let_def n_def)
  have "char_upper (char_of (n - 32)) = char_of (n - 32)"
    using out by (simp add: char_upper_def Let_def m)
  then show ?thesis by (simp add: up)
next
  case False
  then have "char_upper c = c" by (auto simp add: char_upper_def Let_def)
  then show ?thesis by simp
qed

lemma upper_idem: "upper (upper s) = upper s"
  by (simp add: upper_def char_upper_idem)

lemma add_transaction_buy:
  "add_transaction now st s p ''buy'' date fees =
     Ok (st\<lparr>transactions := transactions st @
               [\<lparr>t_date = (case date of None \<Rightarrow> now | Some d \<Rightarrow> d), t_shares = s, t_price = p,
                 transaction_type = ''buy'', t_fees = fees\<rparr>],
             shares := shares st + s,
             purchase_price := (if shares st + s > 0
                then (shares st * purchase_price st + (s * p + fees)) / (shares st + s) else 0)\<rparr>)"
  by (simp add: add_transaction_def total_cost_def Let_def)

lemma add_transaction_sell:
  "add_transaction now st s p ''sell'' date fees =
     (let st2 = st\<lparr>transactions := transactions st @
               [\<lparr>t_date = (case date of None \<Rightarrow> now | Some d \<Rightarrow> d), t_shares = s, t_price = p,
                 transaction_type = ''sell'', t_fees = fees\<rparr>],
             shares := shares st - s\<rparr>
      in if shares st - s < 0 then Raise ValueError_sell_more_than_held st2 else Ok st2)"
  by (simp add: add_transaction_def Let_def)

lemma Stock_init_doubles:
  assumes "0 < s" "0 < p"
  shows "Stock_init now sy s p nm =
     Ok \<lparr>symbol = upper sy, shares = 2 * s, purchase_price = p, stock_name = nm,
         transactions = [\<lparr>t_date = now, t_shares = s, t_price = p,
                          transaction_type = ''buy'', t_fees = 0\<rparr>]\<rparr>"
proof -
  have "(s * p + s * p) / (s + s) = p" using assms
    by (simp add: field_simps)
  then show ?thesis using assms
    by (simp add: Stock_init_def add_transaction_buy Let_def)
qed

lemma Stock_init_ok: "is_ok (Stock_init now sy s p nm)"
  by (simp add: Stock_init_def add_transaction_buy Let_def)

subsection \<open>Lot accounting\<close>

text \<open>
  C7. A buy of \<open>s\<close> shares at price \<open>p\<close> with fees on a holding of \<open>n\<close> shares at average
  cost \<open>c\<close> succeeds and leaves \<open>n + s\<close> shares at average cost
  \<open>(n * c + s * p + fees) / (n + s)\<close>. The source divides only when the new share count is
  positive, which the data model gives (a holding has no negative share count and a
  transaction has a positive one).
\<close>

theorem buy_average_cost:
  assumes "0 < shares st + s"
  shows "is_ok (add_transaction now st s p ''buy'' date fees) \<and>
         shares (state_of (add_transaction now st s p ''buy'' date fees)) = shares st + s \<and>
         purchase_price (state_of (add_transaction now st s p ''buy'' date fees)) =
           (shares st * purchase_price st + s * p + fees) / (shares st + s)"
  using assms by (simp add: add_transaction_buy add.assoc)

text \<open>The scenario of the specification: 10 shares at 150, then 5 bought at 155.\<close>

theorem buy_average_cost_witness:
  "(0::real) < 10 + 5 \<and>
   shares (state_of (add_transaction 1
      \<lparr>symbol = ''AAPL'', shares = 10, purchase_price = 150, stock_name = None, transactions = []\<rparr>
      5 155 ''buy'' None 0)) = 15 \<and>
   purchase_price (state_of (add_transaction 1
      \<lparr>symbol = ''AAPL'', shares = 10, purchase_price = 150, stock_name = None, transactions = []\<rparr>
      5 155 ''buy'' None 0)) = (10 * 150 + 5 * 155) / 15"
  using buy_average_cost [of "\<lparr>symbol = ''AAPL'', shares = 10, purchase_price = 150,
    stock_name = None, transactions = []\<rparr>" 5 1 155 None 0]
  by simp

text \<open>
  C10. A sell of no more shares than are held succeeds; the average cost, the symbol and the
  name stay as they were, the recorded transactions stay as a prefix of the log, the share
  count goes down by the amount sold and exactly one sell transaction is appended.
\<close>

theorem sell_within_holding_frame:
  assumes "s \<le> shares st"
  shows "is_ok (add_transaction now st s p ''sell'' date fees) \<and>
         purchase_price (state_of (add_transaction now st s p ''sell'' date fees)) = purchase_price st \<and>
         shares (state_of (add_transaction now st s p ''sell'' date fees)) = shares st - s \<and>
         transactions (state_of (add_transaction now st s p ''sell'' date fees)) =
           transactions st @
             [\<lparr>t_date = (case date of None \<Rightarrow> now | Some d \<Rightarrow> d), t_shares = s, t_price = p,
               transaction_type = ''sell'', t_fees = fees\<rparr>] \<and>
         symbol (state_of (add_transaction now st s p ''sell'' date fees)) = symbol st \<and>
         stock_name (state_of (add_transaction now st s p ''sell'' date fees)) = stock_name st"
  using assms by (simp add: add_transaction_sell Let_def)

theorem sell_within_holding_frame_witness:
  "(3::real) \<le> 10 \<and>
   purchase_price (state_of (add_transaction 1
      \<lparr>symbol = ''AAPL'', shares = 10, purchase_price = 150, stock_name = None, transactions = []\<rparr>
      3 160 ''sell'' None 0)) = 150 \<and>
   shares (state_of (add_transaction 1
      \<lparr>symbol = ''AAPL'', shares = 10, purchase_price = 150, stock_name = None, transactions = []\<rparr>
      3 160 ''sell'' None 0)) = 7"
  using sell_within_holding_frame [of 3 "\<lparr>symbol = ''AAPL'', shares = 10, purchase_price = 150,
    stock_name = None, transactions = []\<rparr>" 1 160 None 0]
  by simp

text \<open>
  C1. The claim asks that a sell of more shares than are held is rejected with nothing
  written. The source appends the transaction and subtracts the shares before it tests the
  sign: a fresh holding that buys 10 shares at 150 and then sells 15 raises the error, and is
  left with \<open>-5\<close> shares and the rejected sell in its log.
\<close>

theorem sell_more_than_held_not_atomic:
  "add_transaction 2
     (state_of (add_transaction 1 (state_of (Stock_init 0 ''AAPL'' 0 0 None)) 10 150 ''buy'' None 0))
     15 160 ''sell'' None 0 =
   Raise ValueError_sell_more_than_held
     \<lparr>symbol = ''AAPL'', shares = - 5, purchase_price = 150, stock_name = None,
      transactions =
        [\<lparr>t_date = 1, t_shares = 10, t_price = 150, transaction_type = ''buy'', t_fees = 0\<rparr>,
         \<lparr>t_date = 2, t_shares = 15, t_price = 160, transaction_type = ''sell'', t_fees = 0\<rparr>]\<rparr>"
  by (simp add: Stock_init_def add_transaction_buy add_transaction_sell upper_def char_upper_def)

subsection \<open>Buying and selling through the portfolio\<close>

lemma upper_AAPL: "upper ''AAPL'' = ''AAPL''"
  by (simp add: upper_def char_upper_def)

lemma upper_GOOGL: "upper ''GOOGL'' = ''GOOGL''"
  by (simp add: upper_def char_upper_def)

lemma upper_cash: "upper ''cash'' = ''CASH''"
  by (simp add: upper_def char_upper_def char_of_eq_iff)

lemma add_stock_eq:
  "add_stock now p symb sh pp nm =
     Ok (deduct_cost (p\<lparr>stocks := AList.update (upper symb)
           (case map_of (stocks p) (upper symb) of
              Some st \<Rightarrow> state_of (add_transaction now st sh pp ''buy'' None 0)
            | None \<Rightarrow> state_of (Stock_init now (upper symb) sh pp nm)) (stocks p)\<rparr>) sh pp)"
proof (cases "map_of (stocks p) (upper symb)")
  case None
  obtain st' where "Stock_init now (upper symb) sh pp nm = Ok st'"
    using Stock_init_ok [of now "upper symb" sh pp nm]
    by (cases "Stock_init now (upper symb) sh pp nm") simp_all
  with None show ?thesis by (simp add: add_stock_def Let_def)
next
  case (Some st)
  then show ?thesis by (simp add: add_stock_def Let_def add_transaction_buy)
qed

lemma cash_deduct_cost:
  "cash (deduct_cost p sh pp) = (if cash p \<ge> sh * pp then cash p - sh * pp else cash p)"
  by (simp add: deduct_cost_def Let_def)

lemma stocks_deduct_cost: "stocks (deduct_cost p sh pp) = stocks p"
  by (simp add: deduct_cost_def Let_def)

lemma upper_MSFT: "upper ''MSFT'' = ''MSFT''"
  by (simp add: upper_def char_upper_def)

text \<open>
  C4. \<^verbatim>\<open>add_stock\<close> never raises. The cash afterwards is \<open>c - s * p\<close> when \<open>c \<ge> s * p\<close> and
  \<open>c\<close> otherwise, so a balance that was not negative is not negative afterwards. In both
  cases the upper-cased symbol is a key of the portfolio afterwards, and a holding that was
  there has \<open>s\<close> more shares.
\<close>

theorem add_stock_cash:
  "is_ok (add_stock now p symb s pp nm) \<and>
   cash (state_of (add_stock now p symb s pp nm)) =
     (if cash p \<ge> s * pp then cash p - s * pp else cash p) \<and>
   (0 \<le> cash p \<longrightarrow> 0 \<le> cash (state_of (add_stock now p symb s pp nm))) \<and>
   upper symb \<in> fst ` set (stocks (state_of (add_stock now p symb s pp nm))) \<and>
   (\<forall>st. map_of (stocks p) (upper symb) = Some st \<longrightarrow>
      (\<exists>st'. map_of (stocks (state_of (add_stock now p symb s pp nm))) (upper symb) = Some st' \<and>
             shares st' = shares st + s))"
  by (auto simp add: add_stock_eq cash_deduct_cost stocks_deduct_cost update_conv'
        dom_update add_transaction_buy simp flip: dom_map_of_conv_image_fst)


theorem add_stock_cash_witness:
  "cash (state_of (add_stock 0 (Portfolio_init 0 ''Test Portfolio'' 10000) ''AAPL'' 10 150 None))
     = 10000 - 10 * 150 \<and>
   cash (state_of (add_stock 0 (Portfolio_init 0 ''Test Portfolio'' 1000) ''AAPL'' 10 150 None))
     = 1000"
  using add_stock_cash [of 0 "Portfolio_init 0 ''Test Portfolio'' 10000" "''AAPL''" 10 150 None]
        add_stock_cash [of 0 "Portfolio_init 0 ''Test Portfolio'' 1000" "''AAPL''" 10 150 None]
  by (simp add: Portfolio_init_def)

text \<open>
  C3. The claim asks that the first buy of a symbol, \<open>s\<close> shares at price \<open>p\<close>, creates a
  holding of exactly \<open>s\<close> shares. \<^verbatim>\<open>Stock.__init__\<close> stores \<open>s\<close> and then books the same
  \<open>s\<close> again as a buy (lemma \<open>Stock_init_doubles\<close>): after
  \<^verbatim>\<open>add_stock("AAPL", 10, 150)\<close> on an empty portfolio the holding has 20 shares. Its
  average cost (150) and its single buy transaction (10 at 150) are as claimed.
\<close>

theorem add_stock_new_holding_doubles_shares:
  "map_of (stocks (state_of
      (add_stock 0 (Portfolio_init 0 ''Test Portfolio'' 10000) ''AAPL'' 10 150 None))) ''AAPL'' =
   Some \<lparr>symbol = ''AAPL'', shares = 20, purchase_price = 150, stock_name = None,
         transactions = [\<lparr>t_date = 0, t_shares = 10, t_price = 150,
                          transaction_type = ''buy'', t_fees = 0\<rparr>]\<rparr>"
  by (simp add: add_stock_eq Portfolio_init_def stocks_deduct_cost upper_AAPL
        Stock_init_doubles)

lemma sell_stock_absent:
  "map_of (stocks p) (upper symb) = None \<Longrightarrow>
   sell_stock now p symb s pr = Raise (ValueError_not_found (upper symb)) p"
  by (simp add: sell_stock_def Let_def)

lemma sell_stock_present:
  assumes "map_of (stocks p) (upper symb) = Some st" "s \<le> shares st"
  shows "sell_stock now p symb s pr =
     Ok (if shares st - s = 0
         then p\<lparr>stocks := AList.delete (upper symb) (stocks p), cash := cash p + s * pr\<rparr>
         else p\<lparr>stocks := AList.update (upper symb)
                  (state_of (add_transaction now st s pr ''sell'' None 0)) (stocks p),
                cash := cash p + s * pr\<rparr>)"
  using assms
  by (simp add: sell_stock_def Let_def add_transaction_sell remove_stock_def upper_idem
        delete_update_same dom_update)

text \<open>
  C8. \<^verbatim>\<open>sell_stock\<close> on a symbol that is not a key raises the not-found error and leaves the
  portfolio as it was. On a holding with at least \<open>s\<close> shares it succeeds, the cash grows by
  \<open>s * price\<close>, and the symbol is no longer a key exactly when the holding's new share count
  is 0; otherwise the holding stays with \<open>s\<close> shares less.
\<close>

theorem sell_stock_contract:
  "(map_of (stocks p) (upper symb) = None \<longrightarrow>
      sell_stock now p symb s pr = Raise (ValueError_not_found (upper symb)) p) \<and>
   (\<forall>st. map_of (stocks p) (upper symb) = Some st \<and> s \<le> shares st \<longrightarrow>
      is_ok (sell_stock now p symb s pr) \<and>
      cash (state_of (sell_stock now p symb s pr)) = cash p + s * pr \<and>
      (upper symb \<notin> fst ` set (stocks (state_of (sell_stock now p symb s pr)))
         \<longleftrightarrow> shares st - s = 0) \<and>
      (shares st - s \<noteq> 0 \<longrightarrow>
         (\<exists>st'. map_of (stocks (state_of (sell_stock now p symb s pr))) (upper symb) = Some st' \<and>
                shares st' = shares st - s)))"
  by (auto simp add: sell_stock_absent sell_stock_present update_conv' delete_notin_dom
        add_transaction_sell Let_def dom_update)

theorem sell_stock_contract_witness:
  "sell_stock 1 portfolio_one_holding ''MSFT'' 1 1 =
     Raise (ValueError_not_found ''MSFT'') portfolio_one_holding \<and>
   cash (state_of (sell_stock 1 portfolio_one_holding ''AAPL'' 5 160)) = 800 \<and>
   ''AAPL'' \<in> fst ` set (stocks (state_of (sell_stock 1 portfolio_one_holding ''AAPL'' 5 160))) \<and>
   cash (state_of (sell_stock 1 portfolio_one_holding ''AAPL'' 10 160)) = 1600 \<and>
   ''AAPL'' \<notin> fst ` set (stocks (state_of (sell_stock 1 portfolio_one_holding ''AAPL'' 10 160)))"
  using sell_stock_contract [where p = portfolio_one_holding and symb = "''MSFT''" and now = 1
          and s = 1 and pr = 1]
        sell_stock_contract [where p = portfolio_one_holding and symb = "''AAPL''" and now = 1
          and s = 5 and pr = 160]
        sell_stock_contract [where p = portfolio_one_holding and symb = "''AAPL''" and now = 1
          and s = 10 and pr = 160]
  by (simp add: portfolio_one_holding_def holding_10_at_150_def upper_AAPL upper_MSFT)

subsection \<open>Snapshots\<close>

lemma test_portfolio_eq:
  "test_portfolio =
     \<lparr>name = ''Test Portfolio'',
      stocks = [(''AAPL'', \<lparr>symbol = ''AAPL'', shares = 20, purchase_price = 150, stock_name = None,
                   transactions = [\<lparr>t_date = 1, t_shares = 10, t_price = 150,
                                    transaction_type = ''buy'', t_fees = 0\<rparr>]\<rparr>),
                (''GOOGL'', \<lparr>symbol = ''GOOGL'', shares = 10, purchase_price = 140, stock_name = None,
                   transactions = [\<lparr>t_date = 2, t_shares = 5, t_price = 140,
                                    transaction_type = ''buy'', t_fees = 0\<rparr>]\<rparr>)],
      cash = 2800, creation_date = 0, metadata = []\<rparr>"
  by (simp add: test_portfolio_def add_stock_eq Portfolio_init_def deduct_cost_def
        upper_AAPL upper_GOOGL Stock_init_doubles)

text \<open>
  C2. The claim asks that \<^verbatim>\<open>load\<close> after \<^verbatim>\<open>save\<close> gives back the cash and the share
  counts. \<^verbatim>\<open>load\<close> rebuilds every holding with \<^verbatim>\<open>add_stock\<close>, which deducts the cost
  from the restored cash whenever the cash covers it and creates the holding through
  \<^verbatim>\<open>Stock.__init__\<close>, which doubles the shares. For the portfolio of the repository's own
  test the cash goes from 2800 to 1400 and the shares from 20 and 10 to 40 and 20; the name,
  the symbols and the average costs come back.
\<close>

theorem save_load_changes_cash_and_shares:
  "is_ok (load 3 (save test_portfolio)) \<and>
   cash test_portfolio = 2800 \<and>
   cash (state_of (load 3 (save test_portfolio))) = 1400 \<and>
   map (\<lambda>(sy, st). (sy, shares st, purchase_price st)) (stocks test_portfolio) =
     [(''AAPL'', 20, 150), (''GOOGL'', 10, 140)] \<and>
   map (\<lambda>(sy, st). (sy, shares st, purchase_price st)) (stocks (state_of (load 3 (save test_portfolio)))) =
     [(''AAPL'', 40, 150), (''GOOGL'', 20, 140)]"
  by (simp add: test_portfolio_eq save_def to_dict_def load_def add_stock_eq Portfolio_init_def
        deduct_cost_def upper_AAPL upper_GOOGL Stock_init_doubles)

subsection \<open>Allocation reports\<close>

text \<open>
  C6. The claim asks that no report raises on degraded provider data, also when the total
  value is 0. \<^verbatim>\<open>get_allocation\<close> returns the empty mapping when the total is 0;
  \<^verbatim>\<open>get_sector_allocation\<close> has no such test and divides by the total: a portfolio
  without cash that holds one stock, priced 0 by the degraded provider, has total value 0 and
  the call raises \<^verbatim>\<open>ZeroDivisionError\<close>.
\<close>

theorem sector_allocation_raises_on_zero_total:
  "total_value degraded (state_of (add_stock 1 (Portfolio_init 0 ''Test Portfolio'' 0)
      ''AAPL'' 10 150 None)) = 0 \<and>
   get_allocation degraded (state_of (add_stock 1 (Portfolio_init 0 ''Test Portfolio'' 0)
      ''AAPL'' 10 150 None)) = [] \<and>
   get_sector_allocation degraded (state_of (add_stock 1 (Portfolio_init 0 ''Test Portfolio'' 0)
      ''AAPL'' 10 150 None)) = Inl ZeroDivisionError"
  by (simp add: add_stock_eq Portfolio_init_def deduct_cost_def upper_AAPL Stock_init_doubles
        total_value_def current_value_def degraded_def get_allocation_def
        get_sector_allocation_def sector_values_def sector_of_def)

lemma update_fresh: "k \<notin> fst ` set al \<Longrightarrow> AList.update k v al = al @ [(k, v)]"
  by (induction al) auto

lemma fold_update_distinct:
  "distinct (map fst xs) \<Longrightarrow> fst ` set acc \<inter> fst ` set xs = {} \<Longrightarrow>
   fold (\<lambda>(k, v) al. AList.update k (g v) al) xs acc = acc @ map (\<lambda>(k, v). (k, g v)) xs"
proof (induction xs arbitrary: acc)
  case Nil
  then show ?case by simp
next
  case (Cons x xs)
  obtain k v where x: "x = (k, v)" by (cases x)
  have fresh: "k \<notin> fst ` set acc" using Cons.prems(2) x by auto
  have d: "distinct (map fst xs)" using Cons.prems(1) by simp
  have "fst ` set (acc @ [(k, g v)]) \<inter> fst ` set xs = {}"
    using Cons.prems x by auto
  from Cons.IH [OF d this] show ?case
    using fresh by (simp add: x update_fresh)
qed

lemma allocation_stocks:
  assumes "distinct (map fst (stocks p))"
  shows "fold (\<lambda>(sy, st) al. AList.update sy ((current_value pv st / t) * 100) al) (stocks p) [] =
         map (\<lambda>(sy, st). (sy, (current_value pv st / t) * 100)) (stocks p)"
  using fold_update_distinct [OF assms, of "[]" "\<lambda>st. (current_value pv st / t) * 100"]
  by simp

lemma sum_list_scaled:
  "sum_list (map snd (map (\<lambda>(sy, st). (sy, (f st / t) * 100)) xs)) =
   (sum_list (map (\<lambda>(sy, st). f st) xs) / t) * (100::real)"
  by (induction xs) (auto simp add: field_simps add_divide_distrib)

lemma upper_CASH: "upper ''CASH'' = ''CASH''"
  by (simp add: upper_def char_upper_def)

lemma overdrawn_portfolio_eq:
  "stocks overdrawn_portfolio =
     [(''AAPL'', \<lparr>symbol = ''AAPL'', shares = 2, purchase_price = 150, stock_name = None,
        transactions = [\<lparr>t_date = 1, t_shares = 1, t_price = 150,
                         transaction_type = ''buy'', t_fees = 0\<rparr>]\<rparr>)] \<and>
   cash overdrawn_portfolio = - 50"
  by (simp add: overdrawn_portfolio_def add_stock_eq Portfolio_init_def deduct_cost_def
        upper_AAPL Stock_init_doubles)

lemma cash_ticker_portfolio_eq:
  "stocks cash_ticker_portfolio =
     [(''CASH'', \<lparr>symbol = ''CASH'', shares = 2, purchase_price = 50, stock_name = None,
        transactions = [\<lparr>t_date = 1, t_shares = 1, t_price = 50,
                         transaction_type = ''buy'', t_fees = 0\<rparr>]\<rparr>)] \<and>
   cash cash_ticker_portfolio = 0"
  by (simp add: cash_ticker_portfolio_def add_stock_eq Portfolio_init_def deduct_cost_def
        upper_cash upper_CASH Stock_init_doubles)

lemma allocation_test_portfolio_eq:
  "map (\<lambda>(sy, st). (sy, symbol st, shares st)) (stocks allocation_test_portfolio) =
     [(''AAPL'', ''AAPL'', 20), (''GOOGL'', ''GOOGL'', 10)] \<and>
   cash allocation_test_portfolio = 300"
  by (simp add: allocation_test_portfolio_def add_stock_eq Portfolio_init_def deduct_cost_def
        upper_AAPL upper_GOOGL Stock_init_doubles)

text \<open>
  C9, as stated, fails in two ways. The cash balance may be negative (the constructor
  takes any number): then the total can be positive while the holdings alone make more than
  100 percent. And a holding may have the ticker \<open>CASH\<close>: then the key \<open>CASH\<close> is in the
  mapping although the cash balance is 0.
\<close>

theorem get_allocation_counterexample:
  "(0 < total_value (flat_prices 75) overdrawn_portfolio \<and>
    sum_list (map snd (get_allocation (flat_prices 75) overdrawn_portfolio)) = 150 \<and>
    \<not> \<bar>sum_list (map snd (get_allocation (flat_prices 75) overdrawn_portfolio)) - 100\<bar> \<le> 0.01) \<and>
   (0 < total_value (flat_prices 50) cash_ticker_portfolio \<and>
    ''CASH'' \<in> fst ` set (get_allocation (flat_prices 50) cash_ticker_portfolio) \<and>
    \<not> 0 < cash cash_ticker_portfolio)"
  by (simp add: overdrawn_portfolio_eq cash_ticker_portfolio_eq total_value_def
        get_allocation_def current_value_def flat_prices_def)

text \<open>
  C9, amended. For a portfolio with a positive total value and no holding under the key
  \<open>CASH\<close>, the mapping of \<^verbatim>\<open>get_allocation\<close> has the key \<open>CASH\<close> exactly when the cash
  balance is positive; when moreover the cash balance is not negative, its values sum to 100
  (exactly, in real arithmetic, hence within 0.01). The keys of \<open>stocks\<close> are distinct, as
  the keys of a \<^verbatim>\<open>dict\<close> are.
\<close>

theorem get_allocation_sums_to_100:
  assumes "distinct (map fst (stocks p))"
    and "''CASH'' \<notin> fst ` set (stocks p)"
    and "0 < total_value pv p"
  shows "(''CASH'' \<in> fst ` set (get_allocation pv p) \<longleftrightarrow> 0 < cash p) \<and>
         (0 \<le> cash p \<longrightarrow> \<bar>sum_list (map snd (get_allocation pv p)) - 100\<bar> < 0.01)"
proof -
  define t where "t = total_value pv p"
  define vs where "vs = sum_list (map (\<lambda>(sy, st). current_value pv st) (stocks p))"
  define al where "al = map (\<lambda>(sy, st). (sy, (current_value pv st / t) * 100)) (stocks p)"
  define c where "c = (cash p / t) * 100"
  have t: "t = vs + cash p" "t \<noteq> 0" "0 < t"
    using assms(3) by (simp_all add: t_def vs_def total_value_def)
  have keys: "fst ` set al = fst ` set (stocks p)" unfolding al_def by force
  have fresh: "''CASH'' \<notin> fst ` set al" using assms(2) keys by simp
  have f: "fold (\<lambda>(sy, st) al. AList.update sy ((current_value pv st / t) * 100) al) (stocks p) []
      = al"
    unfolding al_def by (rule allocation_stocks [OF assms(1)])
  have u: "AList.update ''CASH'' c al = al @ [(''CASH'', c)]"
    using fresh by (rule update_fresh)
  have ga: "get_allocation pv p = (if cash p > 0 then al @ [(''CASH'', c)] else al)"
    unfolding get_allocation_def Let_def t_def [symmetric] f c_def [symmetric] u
    by (simp only: t(2) if_False)
  have s: "sum_list (map snd al) = (vs / t) * 100"
    unfolding vs_def al_def by (rule sum_list_scaled)
  have part1: "''CASH'' \<in> fst ` set (get_allocation pv p) \<longleftrightarrow> 0 < cash p"
    using fresh unfolding ga by (cases "0 < cash p") simp_all
  have part2: "sum_list (map snd (get_allocation pv p)) = 100" if "0 \<le> cash p"
  proof (cases "0 < cash p")
    case True
    have "sum_list (map snd (get_allocation pv p)) = (vs / t) * 100 + c"
      using True unfolding ga by (simp add: s)
    also have "\<dots> = ((vs + cash p) / t) * 100"
      unfolding c_def by (simp add: add_divide_distrib distrib_right)
    also have "\<dots> = 100" using t by simp
    finally show ?thesis .
  next
    case False
    then have "cash p = 0" using that by simp
    then have "vs / t = 1" using t by simp
    then show ?thesis using False unfolding ga by (simp add: s)
  qed
  show ?thesis using part1 part2 by simp
qed

theorem get_allocation_sums_to_100_witness:
  "distinct (map fst (stocks allocation_test_portfolio)) \<and>
   ''CASH'' \<notin> fst ` set (stocks allocation_test_portfolio) \<and>
   0 < total_value (flat_prices 100) allocation_test_portfolio \<and>
   0 \<le> cash allocation_test_portfolio \<and>
   ''CASH'' \<in> fst ` set (get_allocation (flat_prices 100) allocation_test_portfolio) \<and>
   \<bar>sum_list (map snd (get_allocation (flat_prices 100) allocation_test_portfolio)) - 100\<bar> < 0.01"
proof -
  have k: "map fst (stocks allocation_test_portfolio) = [''AAPL'', ''GOOGL'']"
    using allocation_test_portfolio_eq
    by (cases "stocks allocation_test_portfolio") (auto split: prod.splits)
  have d: "distinct (map fst (stocks allocation_test_portfolio))"
    and n: "''CASH'' \<notin> fst ` set (stocks allocation_test_portfolio)"
    unfolding k set_map [symmetric] by simp_all
  have t: "0 < total_value (flat_prices 100) allocation_test_portfolio"
    using allocation_test_portfolio_eq
    by (cases "stocks allocation_test_portfolio")
      (auto simp add: total_value_def current_value_def flat_prices_def split: prod.splits)
  have c: "0 \<le> cash allocation_test_portfolio" "0 < cash allocation_test_portfolio"
    using allocation_test_portfolio_eq by simp_all
  show ?thesis
    using get_allocation_sums_to_100 [OF d n t] d n t c by simp
qed

subsection \<open>The Max-Sharpe search\<close>

text \<open>
  Whatever the generator and its state before the call, the vector returned is the first
  draw of a generator seeded with an iteration index.
\<close>

lemma optimize_sharpe_ratio_reseeds:
  "\<exists>k. fst (optimize_sharpe_ratio r opt rf g) =
     zip (columns opt) (normalize (fst (rng_random r (rng_seed r k) (length (columns opt)))))"
  by (auto simp add: optimize_sharpe_ratio_def Let_def split_beta)

lemma two_assets_cov:
  "cov_matrix two_assets = [[1764 / 10000, 1764 / 10000], [1764 / 10000, 1764 / 10000]]"
  by (simp add: two_assets_def annualized_cov_def cov_def mean_def)

lemma two_assets_performance:
  assumes "a + b = 1"
  shows "calculate_portfolio_performance two_assets [a, b] = (252 / 100 * a, 42 / 100)"
proof -
  have "dot [a, b] (mat_vec (cov_matrix two_assets) [a, b]) = (1764 / 10000) * (a + b)\<^sup>2"
    by (simp add: two_assets_cov dot_def mat_vec_def power2_eq_square algebra_simps)
  also have "\<dots> = (42 / 100)\<^sup>2" using assms by (simp add: power2_eq_square)
  finally have "sqrt (dot [a, b] (mat_vec (cov_matrix two_assets) [a, b])) = 42 / 100"
    by (simp only: real_sqrt_abs)
  moreover have "sum_list (map2 (*) (map mean (returns_data two_assets)) [a, b]) * 252
      = 252 / 100 * a"
    by (simp add: two_assets_def mean_def)
  ultimately show ?thesis
    by (simp only: calculate_portfolio_performance_def Let_def)
qed


lemma stream_draw:
  "rng_random stream_rng g 2 = ([1 / (real g + 2), 1 / (real g + 3)], g + 2)"
proof -
  have "[0..<2] = [0, Suc 0]" by (simp add: upt_rec numeral_2_eq_2)
  then show ?thesis by (simp add: stream_rng_def add.commute)
qed

lemma normalize_pair:
  assumes "0 < x" "0 < y"
  shows "normalize [1 / x, 1 / y] = [y / (x + y), x / (x + y)]"
proof -
  have s: "1 / x + 1 / y = (x + y) / (x * y)"
    using assms by (simp add: field_simps)
  have a: "(1 / x) / ((x + y) / (x * y)) = y / (x + y)"
    using assms by (simp add: field_simps)
  have b: "(1 / y) / ((x + y) / (x * y)) = x / (x + y)"
    using assms by (simp add: field_simps)
  have "sum_list [1 / x, 1 / y] = (x + y) / (x * y)" using s by simp
  then show ?thesis unfolding normalize_def using a b by (simp del: divide_divide_eq_left divide_divide_eq_right times_divide_eq_left times_divide_eq_right)
qed

lemma stream_weights:
  "normalize [1 / (real g + 2), 1 / (real g + 3)] =
     [(real g + 3) / (2 * real g + 5), 1 - (real g + 3) / (2 * real g + 5)]"
proof -
  have p: "0 < real g + 2" "0 < real g + 3" by simp_all
  have e: "real g + 2 + (real g + 3) = 2 * real g + 5" by simp
  have "(real g + 2) / (2 * real g + 5) = 1 - (real g + 3) / (2 * real g + 5)"
    by (simp add: field_simps)
  then show ?thesis using normalize_pair [OF p] by (simp only: e)
qed


lemma stream_weight_le: "stream_weight g \<le> stream_weight 0"
  by (simp add: stream_weight_def field_simps)

lemma stream_step:
  "normalize (fst (rng_random stream_rng g 2)) = [stream_weight g, 1 - stream_weight g]"
  by (simp only: stream_draw fst_conv stream_weights stream_weight_def)

lemma stream_performance:
  "calculate_portfolio_performance two_assets [stream_weight g, 1 - stream_weight g] =
     (252 / 100 * stream_weight g, 42 / 100)"
  by (rule two_assets_performance) simp

lemma simulate_stream:
  "simulate stream_rng two_assets rf 2 i k g =
     (map (\<lambda>j. stream_row rf (g + 2 * j) (i + j)) [0..<k], g + 2 * k)"
proof (induction k arbitrary: i g)
  case 0
  show ?case by simp
next
  case (Suc k)
  have d: "rng_random stream_rng g 2 = (fst (rng_random stream_rng g 2), g + 2)"
    by (simp add: stream_draw)
  have "simulate stream_rng two_assets rf 2 i (Suc k) g =
      (stream_row rf g i # fst (simulate stream_rng two_assets rf 2 (Suc i) k (g + 2)),
       snd (simulate stream_rng two_assets rf 2 (Suc i) k (g + 2)))"
    apply (subst simulate.simps(2))
    apply (subst d)
    apply (simp only: Let_def case_prod_conv stream_step stream_performance stream_row_def
        split_beta fst_conv snd_conv)
    done
  also have "\<dots> = (stream_row rf g i #
        map (\<lambda>j. stream_row rf (g + 2 + 2 * j) (Suc i + j)) [0..<k], g + 2 + 2 * k)"
    by (simp only: Suc.IH fst_conv snd_conv)
  also have "\<dots> = (map (\<lambda>j. stream_row rf (g + 2 * j) (i + j)) [0..<Suc k], g + 2 * Suc k)"
    by (simp add: map_upt_Suc del: upt_Suc)
  finally show ?case .
qed

lemma argmax_aux_keep:
  "\<forall>y \<in> set ys. \<not> bv < y \<Longrightarrow> argmax_aux ys j best bv = best"
  by (induction ys arbitrary: j) simp_all

lemma argmax_head:
  "\<forall>y \<in> set ys. y \<le> x \<Longrightarrow> argmax (x # ys) = 0"
  by (simp add: argmax_def argmax_aux_keep not_less)


lemma stream_sharpe_le:
  "(252 / 100 * stream_weight g - rf) / (42 / 100)
     \<le> (252 / 100 * stream_weight 0 - rf) / (42 / 100)"
  using stream_weight_le [of g] by (simp add: divide_right_mono)

lemma stream_results:
  "simulate stream_rng two_assets rf 2 0 10000 0 =
     (stream_row rf 0 0 # map (\<lambda>j. stream_row rf (2 * Suc j) (Suc j)) [0..<9999], 20000)"
proof -
  have n: "(10000::nat) = Suc 9999" by simp
  show ?thesis
    by (simp only: simulate_stream n map_upt_Suc) simp
qed

lemma stream_argmax:
  "argmax (map (\<lambda>(ret, sd, sharpe, i). sharpe)
     (stream_row rf 0 0 # map (\<lambda>j. stream_row rf (2 * Suc j) (Suc j)) [0..<9999])) = 0"
proof -
  have "map (\<lambda>(ret, sd, sharpe, i). sharpe)
     (stream_row rf 0 0 # map (\<lambda>j. stream_row rf (2 * Suc j) (Suc j)) [0..<9999]) =
     (252 / 100 * stream_weight 0 - rf) / (42 / 100) #
       map (\<lambda>j. (252 / 100 * stream_weight (2 * Suc j) - rf) / (42 / 100)) [0..<9999]"
    by (simp add: stream_row_def del: upt_Suc)
  moreover have "\<forall>y \<in> set (map (\<lambda>j. (252 / 100 * stream_weight (2 * Suc j) - rf) / (42 / 100))
        [0..<9999]). y \<le> (252 / 100 * stream_weight 0 - rf) / (42 / 100)"
    using stream_sharpe_le by (auto simp del: upt_Suc)
  ultimately show ?thesis by (simp only: argmax_head)
qed

lemma stream_optimize:
  "fst (optimize_sharpe_ratio stream_rng two_assets rf 0) =
     [(''A'', 104 / 207), (''B'', 103 / 207)]"
proof -
  have c: "length (columns two_assets) = 2" "columns two_assets = [''A'', ''B'']"
    by (simp_all add: two_assets_def)
  have i0: "nat \<lfloor>(\<lambda>(ret, sd, sharpe, i). i)
      ((stream_row rf 0 0 # map (\<lambda>j. stream_row rf (2 * Suc j) (Suc j)) [0..<9999]) ! 0)\<rfloor> = 0"
    by (simp add: stream_row_def del: upt_Suc)
  have s: "rng_seed stream_rng 0 = 101" by (simp add: stream_rng_def)
  have w: "normalize (fst (rng_random stream_rng 101 2)) = [104 / 207, 103 / 207]"
    by (simp add: stream_step stream_weight_def)
  show ?thesis
    unfolding optimize_sharpe_ratio_def Let_def c(1) stream_results case_prod_conv
      stream_argmax i0 s
    by (simp only: split_beta fst_conv w c(2)) simp
qed


lemma drawn_weights_stream:
  "drawn_weights stream_rng 2 k g =
     map (\<lambda>j. [stream_weight (g + 2 * j), 1 - stream_weight (g + 2 * j)]) [0..<k]"
proof (induction k arbitrary: g)
  case 0
  show ?case by simp
next
  case (Suc k)
  have d: "rng_random stream_rng g 2 = (fst (rng_random stream_rng g 2), g + 2)"
    by (simp add: stream_draw)
  have "drawn_weights stream_rng 2 (Suc k) g =
      [stream_weight g, 1 - stream_weight g] # drawn_weights stream_rng 2 k (g + 2)"
    apply (subst drawn_weights.simps(2))
    apply (subst d)
    apply (simp only: Let_def case_prod_conv stream_step)
    done
  also have "\<dots> = [stream_weight g, 1 - stream_weight g] #
      map (\<lambda>j. [stream_weight (g + 2 + 2 * j), 1 - stream_weight (g + 2 + 2 * j)]) [0..<k]"
    by (simp only: Suc.IH)
  also have "\<dots> = map (\<lambda>j. [stream_weight (g + 2 * j), 1 - stream_weight (g + 2 * j)]) [0..<Suc k]"
    by (simp add: map_upt_Suc del: upt_Suc)
  finally show ?case .
qed

lemma stream_sharpe_of:
  "sharpe_of two_assets rf [stream_weight g, 1 - stream_weight g] =
     (252 / 100 * stream_weight g - rf) / (42 / 100)"
  by (simp only: sharpe_of_def stream_performance Let_def case_prod_conv)

lemma stream_best_drawn:
  "best_drawn stream_rng two_assets rf 0 = [3 / 5, 2 / 5]"
proof -
  have n: "(10000::nat) = Suc 9999" by simp
  have c: "length (columns two_assets) = 2" by (simp add: two_assets_def)
  define rest where "rest = map (\<lambda>j. [stream_weight (2 * Suc j), 1 - stream_weight (2 * Suc j)]) [0..<9999]"
  have ws: "drawn_weights stream_rng 2 10000 0 = [stream_weight 0, 1 - stream_weight 0] # rest"
    unfolding rest_def by (simp only: drawn_weights_stream n map_upt_Suc) simp
  have "\<forall>y \<in> set (map (sharpe_of two_assets rf) rest).
      y \<le> sharpe_of two_assets rf [stream_weight 0, 1 - stream_weight 0]"
    unfolding rest_def using stream_sharpe_le by (auto simp add: stream_sharpe_of simp del: upt_Suc)
  then have "argmax (map (sharpe_of two_assets rf) ([stream_weight 0, 1 - stream_weight 0] # rest)) = 0"
    by (simp only: list.map argmax_head)
  then have "best_drawn stream_rng two_assets rf 0 = [stream_weight 0, 1 - stream_weight 0]"
    by (simp only: best_drawn_def Let_def c ws nth_Cons_0)
  then show ?thesis by (simp add: stream_weight_def)
qed

text \<open>
  C5. The claim asks that the mapping returned is the drawn vector with the maximum Sharpe
  ratio. The loop does not keep the vectors; afterwards the generator is seeded with the
  index of the best iteration and a new vector is drawn. For the two assets and the stream
  generator started at position 0, the best of the 10000 drawn vectors is the first,
  \<open>(3/5, 2/5)\<close>; the call returns \<open>(104/207, 103/207)\<close>, the draw at position 101, whose
  Sharpe ratio is smaller.
\<close>

theorem max_sharpe_returns_fresh_draw:
  "fst (optimize_sharpe_ratio stream_rng two_assets (2 / 100) 0) =
     [(''A'', 104 / 207), (''B'', 103 / 207)] \<and>
   zip (columns two_assets) (best_drawn stream_rng two_assets (2 / 100) 0) =
     [(''A'', 3 / 5), (''B'', 2 / 5)] \<and>
   sharpe_of two_assets (2 / 100) [104 / 207, 103 / 207] <
     sharpe_of two_assets (2 / 100) (best_drawn stream_rng two_assets (2 / 100) 0)"
proof -
  have a: "sharpe_of two_assets (2 / 100) [104 / 207, 103 / 207] =
      (252 / 100 * (104 / 207) - 2 / 100) / (42 / 100)"
    using two_assets_performance [of "104 / 207" "103 / 207"]
    by (simp add: sharpe_of_def)
  have b: "sharpe_of two_assets (2 / 100) [3 / 5, 2 / 5] =
      (252 / 100 * (3 / 5) - 2 / 100) / (42 / 100)"
    using two_assets_performance [of "3 / 5" "2 / 5"]
    by (simp add: sharpe_of_def)
  have "sharpe_of two_assets (2 / 100) [104 / 207, 103 / 207] <
      sharpe_of two_assets (2 / 100) [3 / 5, 2 / 5]"
    unfolding a b by simp
  moreover have "columns two_assets = [''A'', ''B'']" by (simp add: two_assets_def)
  ultimately show ?thesis
    unfolding stream_optimize stream_best_drawn by simp
qed

end
